theory Spec2Isabelle
  imports Complex_Main
begin

section \<open>Numbers\<close>

text \<open>
  The sources compute with \<open>double\<close> (the controller) and \<open>float\<close> (the candidate).
  Two models of the controller's numbers are used.

  In the first, a \<open>double\<close> is a \<^typ>\<open>real\<close>: rounding, underflow and overflow are left
  out, and the only value that is no number is the quotient by \<open>dt = 0\<close>, an infinity
  or a NaN on the machine and \<open>NonFinite\<close> here. It carries the statements about the
  branch a call takes and about the flag: the initial state, the monotone flag, the runs
  of calls without a crossing.

  In the second, further down, a \<open>double\<close> is an IEEE 754 binary64 value and every
  operation rounds as the machine does. It carries the update law itself, where the
  underflow of a product to zero decides whether the integral is reset and an overflow
  decides what is returned.

  The \<open>float\<close> members of the candidate are reals.
\<close>

datatype double_value = Num real | NonFinite

definition div_d :: "real \<Rightarrow> real \<Rightarrow> double_value" where
  "div_d x y = (if y = 0 then NonFinite else Num (x / y))"

fun mul_d :: "real \<Rightarrow> double_value \<Rightarrow> double_value" where
  "mul_d k (Num x) = Num (k * x)"
| "mul_d k NonFinite = NonFinite"

fun add_d :: "real \<Rightarrow> double_value \<Rightarrow> double_value" where
  "add_d a (Num x) = Num (a + x)"
| "add_d a NonFinite = NonFinite"

section \<open>The PID controller (src/control/pid_controller.cpp)\<close>

text \<open>The private members of \<open>PidController\<close>; the trailing underscore is dropped.\<close>

record PidController =
  kp :: real
  ki :: real
  kd :: real
  setpoint :: real
  previous_error :: real
  integral :: real
  overshoot_limiter :: bool
  crossed_setpoint :: bool

text \<open>The constructor \<open>PidController::PidController()\<close>.\<close>

definition PidController_new :: PidController where
  "PidController_new =
     \<lparr> kp = 3 / 10, ki = 0, kd = 5 / 100, setpoint = 0, previous_error = 0,
       integral = 0, overshoot_limiter = True, crossed_setpoint = False \<rparr>"

text \<open>
  \<open>GetControlVariable(measured_value, dt)\<close>: the controller is passed in and returned
  updated, next to the returned output. The statements are kept in the source's order.
\<close>

definition GetControlVariable ::
  "PidController \<Rightarrow> real \<Rightarrow> real \<Rightarrow> double_value \<times> PidController" where
  "GetControlVariable c measured_value dt =
     (let error = setpoint c - measured_value;
          c1 = (if overshoot_limiter c
                then (if error * previous_error c < 0
                      then c\<lparr>integral := 0, crossed_setpoint := True\<rparr>
                      else c)
                else c);
          ki_local = (if \<not> crossed_setpoint c1 \<and> overshoot_limiter c1 then 0 else ki c1);
          c2 = c1\<lparr>integral := integral c1 + error * dt\<rparr>;
          derivative = div_d (error - previous_error c2) dt;
          output = add_d (kp c2 * error + ki_local * integral c2) (mul_d (kd c2) derivative);
          c3 = c2\<lparr>previous_error := error\<rparr>
      in (output, c3))"

text \<open>
  A caller's control loop: one call per cycle, each with its measurement and its \<open>dt\<close>;
  the outputs are collected in order and the controller is threaded through.
\<close>

fun run :: "PidController \<Rightarrow> (real \<times> real) list \<Rightarrow> double_value list \<times> PidController" where
  "run c [] = ([], c)"
| "run c ((measured_value, dt) # calls) =
     (let (out, c') = GetControlVariable c measured_value dt;
          (outs, c'') = run c' calls
      in (out # outs, c''))"

text \<open>
  Whether a run of calls is free of sign crossings: at no call is the product of the new
  error and the stored previous error negative (the test of the inner \<open>if\<close> of
  \<open>GetControlVariable\<close>).
\<close>

fun no_crossing :: "PidController \<Rightarrow> (real \<times> real) list \<Rightarrow> bool" where
  "no_crossing c [] = True"
| "no_crossing c ((measured_value, dt) # calls) =
     (\<not> (setpoint c - measured_value) * previous_error c < 0
      \<and> no_crossing (snd (GetControlVariable c measured_value dt)) calls)"

section \<open>Binary64 arithmetic\<close>

text \<open>
  An IEEE 754 binary64 value: a finite number (\<open>Fin x\<close>, with \<open>Fin 0\<close> the positive
  zero), the negative zero, the two infinities, or a NaN. The operations round to nearest,
  ties to even, and each operation of the source is rounded on its own: no fused
  multiply-add and no wider intermediate precision.
\<close>

datatype double = Fin real | NegZero | PlusInf | MinusInf | NaN

text \<open>
  The largest exponent \<open>e\<close> between \<open>lo\<close> and \<open>hi\<close> with \<open>2 ^ e \<le> a\<close>, and \<open>lo\<close> if
  there is none, found by bisection.
\<close>

function expo_between :: "int \<Rightarrow> int \<Rightarrow> real \<Rightarrow> int" where
  "expo_between lo hi a =
     (if hi \<le> lo then lo
      else (let mid = (lo + hi + 1) div 2
            in if 2 powi mid \<le> a then expo_between mid hi a
               else expo_between lo (mid - 1) a))"
  by pat_completeness auto
termination
  by (relation "measure (\<lambda>(lo, hi, a). nat (hi - lo))") auto

text \<open>
  The exponent of a magnitude, kept within the range of binary64: \<open>-1022\<close> for the
  subnormal numbers and the first normal binade, \<open>1023\<close> for the last binade and beyond.
\<close>

definition expo :: "real \<Rightarrow> int" where
  "expo a = expo_between (- 1022) 1023 a"

text \<open>
  The spacing of the binary64 numbers around a magnitude: 52 fraction bits below its
  exponent.
\<close>

definition ulp :: "real \<Rightarrow> real" where
  "ulp a = 2 powi (expo a - 52)"

text \<open>
  The nearest integer, a tie going to the even neighbour.
\<close>

definition round_even :: "real \<Rightarrow> int" where
  "round_even t =
     (let f = \<lfloor>t\<rfloor>; d = t - of_int f
      in if d < 1 / 2 then f
         else if 1 / 2 < d then f + 1
         else if even f then f else f + 1)"

text \<open>
  The binary64 value of an exact result \<open>x\<close>: its magnitude, counted in units of the
  spacing, is rounded to the nearest integer \<open>m\<close>. In the last binade, \<open>m\<close> reaching
  \<open>2 ^ 53\<close> is an overflow to the infinity of the sign of \<open>x\<close>. A result rounded to zero
  is the negative zero when \<open>neg_zero\<close> says so (the sign rule of the operation).
\<close>

definition round64 :: "bool \<Rightarrow> real \<Rightarrow> double" where
  "round64 neg_zero x =
     (let a = \<bar>x\<bar>; u = ulp a; m = round_even (a / u)
      in if expo a = 1023 \<and> 2 ^ 53 \<le> m then (if x < 0 then MinusInf else PlusInf)
         else if m = 0 then (if neg_zero then NegZero else Fin 0)
         else Fin (if x < 0 then - (of_int m * u) else of_int m * u))"

text \<open>
  The number a value stands for (zero for what is no finite number), its sign bit, and
  the classes of values.
\<close>

fun value_of :: "double \<Rightarrow> real" where
  "value_of (Fin x) = x"
| "value_of NegZero = 0"
| "value_of PlusInf = 0"
| "value_of MinusInf = 0"
| "value_of NaN = 0"

fun sign_bit :: "double \<Rightarrow> bool" where
  "sign_bit (Fin x) = (x < 0)"
| "sign_bit NegZero = True"
| "sign_bit PlusInf = False"
| "sign_bit MinusInf = True"
| "sign_bit NaN = False"

fun is_infinite :: "double \<Rightarrow> bool" where
  "is_infinite PlusInf = True"
| "is_infinite MinusInf = True"
| "is_infinite (Fin x) = False"
| "is_infinite NegZero = False"
| "is_infinite NaN = False"

fun is_zero :: "double \<Rightarrow> bool" where
  "is_zero (Fin x) = (x = 0)"
| "is_zero NegZero = True"
| "is_zero PlusInf = False"
| "is_zero MinusInf = False"
| "is_zero NaN = False"

fun non_finite :: "double \<Rightarrow> bool" where
  "non_finite PlusInf = True"
| "non_finite MinusInf = True"
| "non_finite NaN = True"
| "non_finite (Fin x) = False"
| "non_finite NegZero = False"

text \<open>
  Negation flips the sign bit, also of a zero.
\<close>

fun d_neg :: "double \<Rightarrow> double" where
  "d_neg (Fin x) = (if x = 0 then NegZero else Fin (- x))"
| "d_neg NegZero = Fin 0"
| "d_neg PlusInf = MinusInf"
| "d_neg MinusInf = PlusInf"
| "d_neg NaN = NaN"

text \<open>
  Addition. A NaN operand gives a NaN, as do two infinities of opposite sign. An exact sum
  of zero is the negative zero only if both operands carry the sign bit.
\<close>

definition d_add :: "double \<Rightarrow> double \<Rightarrow> double" where
  "d_add a b =
     (if a = NaN \<or> b = NaN then NaN
      else if is_infinite a \<and> is_infinite b then (if a = b then a else NaN)
      else if is_infinite a then a
      else if is_infinite b then b
      else (let s = value_of a + value_of b
            in if s = 0 then (if sign_bit a \<and> sign_bit b then NegZero else Fin 0)
               else round64 (s < 0) s))"

text \<open>
  Subtraction is the addition of the negated operand.
\<close>

definition d_sub :: "double \<Rightarrow> double \<Rightarrow> double" where
  "d_sub a b = d_add a (d_neg b)"

text \<open>
  Multiplication. Zero times an infinity is a NaN; otherwise the sign is the exclusive or
  of the operands' signs, also for a product that is or rounds to zero.
\<close>

definition d_mul :: "double \<Rightarrow> double \<Rightarrow> double" where
  "d_mul a b =
     (if a = NaN \<or> b = NaN then NaN
      else if is_infinite a \<or> is_infinite b
      then (if is_zero a \<or> is_zero b then NaN
            else if sign_bit a = sign_bit b then PlusInf else MinusInf)
      else round64 (sign_bit a \<noteq> sign_bit b) (value_of a * value_of b))"

text \<open>
  Division. An infinity by an infinity and a zero by a zero are NaNs; a nonzero finite
  number by a zero is an infinity; a finite number by an infinity is a zero.
\<close>

definition d_div :: "double \<Rightarrow> double \<Rightarrow> double" where
  "d_div a b =
     (if a = NaN \<or> b = NaN then NaN
      else if is_infinite a
      then (if is_infinite b then NaN
            else if sign_bit a = sign_bit b then PlusInf else MinusInf)
      else if is_infinite b then (if sign_bit a = sign_bit b then Fin 0 else NegZero)
      else if is_zero b
      then (if is_zero a then NaN
            else if sign_bit a = sign_bit b then PlusInf else MinusInf)
      else round64 (sign_bit a \<noteq> sign_bit b) (value_of a / value_of b))"

text \<open>
  The comparison \<open><\<close>: false whenever an operand is a NaN; the two zeros are equal.
\<close>

definition d_lt :: "double \<Rightarrow> double \<Rightarrow> bool" where
  "d_lt a b =
     (if a = NaN \<or> b = NaN then False
      else if a = PlusInf \<or> b = MinusInf then False
      else if a = MinusInf \<or> b = PlusInf then True
      else value_of a < value_of b)"

section \<open>The PID controller in binary64 arithmetic\<close>

text \<open>
  The members of \<open>PidController\<close> again, now binary64 values; \<open>_d\<close> stands for the
  trailing underscore of the member names.
\<close>

record PidController_b64 =
  kp_d :: double
  ki_d :: double
  kd_d :: double
  setpoint_d :: double
  previous_error_d :: double
  integral_d :: double
  overshoot_limiter_d :: bool
  crossed_setpoint_d :: bool

text \<open>
  The constructor: the literals \<open>0.3\<close> and \<open>0.05\<close> are the binary64 values nearest to
  them.
\<close>

definition PidController_b64_new :: PidController_b64 where
  "PidController_b64_new =
     \<lparr> kp_d = round64 False (3 / 10), ki_d = Fin 0, kd_d = round64 False (5 / 100),
       setpoint_d = Fin 0, previous_error_d = Fin 0, integral_d = Fin 0,
       overshoot_limiter_d = True, crossed_setpoint_d = False \<rparr>"

text \<open>
  \<open>GetControlVariable(measured_value, dt)\<close>, statement by statement as in the source,
  with the operations of binary64. The sum of the output is taken from left to right, and
  the derivative is divided before it is multiplied by \<open>kd_\<close>, as the source has it.
\<close>

definition GetControlVariable_b64 ::
  "PidController_b64 \<Rightarrow> double \<Rightarrow> double \<Rightarrow> double \<times> PidController_b64" where
  "GetControlVariable_b64 c measured_value dt =
     (let error = d_sub (setpoint_d c) measured_value;
          c1 = (if overshoot_limiter_d c
                then (if d_lt (d_mul error (previous_error_d c)) (Fin 0)
                      then c\<lparr>integral_d := Fin 0, crossed_setpoint_d := True\<rparr>
                      else c)
                else c);
          ki_local = (if \<not> crossed_setpoint_d c1 \<and> overshoot_limiter_d c1
                      then Fin 0 else ki_d c1);
          c2 = c1\<lparr>integral_d := d_add (integral_d c1) (d_mul error dt)\<rparr>;
          derivative = d_div (d_sub error (previous_error_d c2)) dt;
          output = d_add (d_add (d_mul (kp_d c2) error) (d_mul ki_local (integral_d c2)))
                         (d_mul (kd_d c2) derivative);
          c3 = c2\<lparr>previous_error_d := error\<rparr>
      in (output, c3))"

text \<open>
  A controller with gains and state that binary64 holds exactly, for the examples.
\<close>

definition example_controller :: PidController_b64 where
  "example_controller =
     \<lparr> kp_d = Fin (1 / 2), ki_d = Fin 2, kd_d = Fin (1 / 4),
       setpoint_d = Fin 0, previous_error_d = Fin (- 1), integral_d = Fin 7,
       overshoot_limiter_d = True, crossed_setpoint_d = False \<rparr>"

section \<open>Polynomials (avt_341/planning/local/polynomial.h)\<close>

text \<open>
  Modelled from the spec: the header \<open>polynomial.h\<close> with the class \<open>Polynomial\<close> is not
  among the sources. The spec describes a curve over an arc-length parameter, built from
  its coefficients (a cubic has four of them). The coefficient of the power \<open>i\<close> of the
  parameter stands at index \<open>i\<close>.
\<close>

datatype Polynomial = Polynomial (coeffs: "real list")

text \<open>
  Modelled from the spec: the value of a coefficient list at \<open>s\<close>, the sum of
  the coefficients times the powers of \<open>s\<close>, written as a nested product.
\<close>

fun eval_coeffs :: "real list \<Rightarrow> real \<Rightarrow> real" where
  "eval_coeffs [] s = 0"
| "eval_coeffs (a # as) s = a + s * eval_coeffs as s"

text \<open>
  Modelled from the spec: "coefficients scaled by their power": the coefficient at the
  head is multiplied by \<open>n\<close>, the next one by \<open>n + 1\<close>, and so on.
\<close>

fun scale_by_power :: "nat \<Rightarrow> real list \<Rightarrow> real list" where
  "scale_by_power n [] = []"
| "scale_by_power n (a # as) = real n * a # scale_by_power (Suc n) as"

text \<open>
  Modelled from the spec: \<open>Polynomial::At(s)\<close> "evaluates the curve"; it is defined for
  every real \<open>s\<close>.
\<close>

definition At :: "Polynomial \<Rightarrow> real \<Rightarrow> real" where
  "At p s = eval_coeffs (coeffs p) s"

text \<open>
  Modelled from the spec: \<open>Polynomial::Derivative()\<close> "returns the exact derivative
  (coefficients scaled by their power, one degree lower)", a new polynomial: the constant
  coefficient is dropped and each remaining one is scaled by the power it had.
\<close>

definition Derivative :: "Polynomial \<Rightarrow> Polynomial" where
  "Derivative p = Polynomial (scale_by_power 1 (tl (coeffs p)))"

section \<open>Candidates (avt_341/planning/local/candidate.h)\<close>

text \<open>
  The private members of \<open>Candidate\<close>, in the order of their declaration; the trailing
  underscore is dropped.
\<close>

record Candidate =
  curve :: Polynomial
  first_deriv :: Polynomial
  second_deriv :: Polynomial
  out_of_bounds :: bool
  hits_obstacle :: bool
  cost :: real
  comfortability :: real
  static_safety :: real
  segmentation_cost :: real
  dynamic_safety :: real
  rho_final :: real
  max_curvature :: real
  max_length :: real
  s0 :: real
  rank :: int

text \<open>
  \<open>Candidate(){}\<close> has an empty body and no initialiser list: it assigns no member. The
  object it leaves behind is the storage it was constructed in, which is the argument
  here: arbitrary for an automatic or heap object, all zeros for an object of static
  storage duration. (The three polynomials of the argument are what the default
  constructor of \<open>Polynomial\<close> makes of them.)
\<close>

definition Candidate_empty :: "Candidate \<Rightarrow> Candidate" where
  "Candidate_empty storage = storage"

text \<open>
  \<open>Initialize(p)\<close>, the assignments in the source's order. The six cost members
  are not touched.
\<close>

definition Initialize :: "Candidate \<Rightarrow> Polynomial \<Rightarrow> Candidate" where
  "Initialize c p =
     (let c = c\<lparr>curve := p\<rparr>;
          c = c\<lparr>first_deriv := Derivative (curve c)\<rparr>;
          c = c\<lparr>second_deriv := Derivative (first_deriv c)\<rparr>
      in c\<lparr>out_of_bounds := False, hits_obstacle := False, rank := - 1,
           max_curvature := 0, max_length := 100, s0 := 0\<rparr>)"

text \<open>
  \<open>Candidate(Polynomial p)\<close>: the members start as in the empty constructor, then
  \<open>Initialize(p)\<close> runs.
\<close>

definition Candidate_poly :: "Candidate \<Rightarrow> Polynomial \<Rightarrow> Candidate" where
  "Candidate_poly storage p = Initialize storage p"

text \<open>
  \<open>operator =\<close>: the object assigned to comes first, the right-hand side \<open>c\<close> second.
  The fourteen member assignments of the source; \<open>rho_final_\<close> is not among them.
\<close>

definition assign :: "Candidate \<Rightarrow> Candidate \<Rightarrow> Candidate" where
  "assign this c =
     this\<lparr>curve := curve c, first_deriv := first_deriv c, second_deriv := second_deriv c,
          out_of_bounds := out_of_bounds c, hits_obstacle := hits_obstacle c,
          cost := cost c, comfortability := comfortability c,
          static_safety := static_safety c, dynamic_safety := dynamic_safety c,
          segmentation_cost := segmentation_cost c, rank := rank c,
          max_length := max_length c, max_curvature := max_curvature c, s0 := s0 c\<rparr>"

text \<open>
  The evaluation methods; \<open>Candidate::At\<close> is named \<open>Candidate_At\<close>, next to
  \<open>Polynomial::At\<close>.
\<close>

definition Candidate_At :: "Candidate \<Rightarrow> real \<Rightarrow> real" where
  "Candidate_At c s = At (curve c) s"

definition DerivativeAt :: "Candidate \<Rightarrow> real \<Rightarrow> real" where
  "DerivativeAt c s = At (first_deriv c) s"

definition SecondDerivativeAt :: "Candidate \<Rightarrow> real \<Rightarrow> real" where
  "SecondDerivativeAt c s = At (second_deriv c) s"

text \<open>
  The getters and setters. A setter returns the updated candidate.
\<close>

definition IsOutOfBounds :: "Candidate \<Rightarrow> bool" where
  "IsOutOfBounds c = out_of_bounds c"

definition HitsObstacle :: "Candidate \<Rightarrow> bool" where
  "HitsObstacle c = hits_obstacle c"

definition SetOutOfBounds :: "Candidate \<Rightarrow> bool \<Rightarrow> Candidate" where
  "SetOutOfBounds c oob = c\<lparr>out_of_bounds := oob\<rparr>"

definition SetHitsObstacle :: "Candidate \<Rightarrow> bool \<Rightarrow> Candidate" where
  "SetHitsObstacle c ho = c\<lparr>hits_obstacle := ho\<rparr>"

definition SetCost :: "Candidate \<Rightarrow> real \<Rightarrow> Candidate" where
  "SetCost c cost' = c\<lparr>cost := cost'\<rparr>"

definition GetCost :: "Candidate \<Rightarrow> real" where
  "GetCost c = cost c"

definition SetRank :: "Candidate \<Rightarrow> int \<Rightarrow> Candidate" where
  "SetRank c rank' = c\<lparr>rank := rank'\<rparr>"

definition GetRank :: "Candidate \<Rightarrow> int" where
  "GetRank c = rank c"

definition SetMaxCurvature :: "Candidate \<Rightarrow> real \<Rightarrow> Candidate" where
  "SetMaxCurvature c mc = c\<lparr>max_curvature := mc\<rparr>"

definition GetMaxCurvature :: "Candidate \<Rightarrow> real" where
  "GetMaxCurvature c = max_curvature c"

definition SetComfortability :: "Candidate \<Rightarrow> real \<Rightarrow> Candidate" where
  "SetComfortability c comfort = c\<lparr>comfortability := comfort\<rparr>"

definition GetComfortability :: "Candidate \<Rightarrow> real" where
  "GetComfortability c = comfortability c"

definition SetStaticSafety :: "Candidate \<Rightarrow> real \<Rightarrow> Candidate" where
  "SetStaticSafety c stat_safe = c\<lparr>static_safety := stat_safe\<rparr>"

definition GetStaticSafety :: "Candidate \<Rightarrow> real" where
  "GetStaticSafety c = static_safety c"

definition SetDynamicSafety :: "Candidate \<Rightarrow> real \<Rightarrow> Candidate" where
  "SetDynamicSafety c dyn_safe = c\<lparr>dynamic_safety := dyn_safe\<rparr>"

definition GetDynamicSafety :: "Candidate \<Rightarrow> real" where
  "GetDynamicSafety c = dynamic_safety c"

definition SetRhoCost :: "Candidate \<Rightarrow> real \<Rightarrow> Candidate" where
  "SetRhoCost c rho_cost = c\<lparr>rho_final := rho_cost\<rparr>"

definition GetRhoCost :: "Candidate \<Rightarrow> real" where
  "GetRhoCost c = rho_final c"

definition SetMaxLength :: "Candidate \<Rightarrow> real \<Rightarrow> Candidate" where
  "SetMaxLength c ml = c\<lparr>max_length := ml\<rparr>"

definition GetMaxLength :: "Candidate \<Rightarrow> real" where
  "GetMaxLength c = max_length c"

definition SetS0 :: "Candidate \<Rightarrow> real \<Rightarrow> Candidate" where
  "SetS0 c s0' = c\<lparr>s0 := s0'\<rparr>"

definition GetS0 :: "Candidate \<Rightarrow> real" where
  "GetS0 c = s0 c"

definition SetSegmentationCost :: "Candidate \<Rightarrow> real \<Rightarrow> Candidate" where
  "SetSegmentationCost c segmentation_cost' = c\<lparr>segmentation_cost := segmentation_cost'\<rparr>"

definition GetSegmentationCost :: "Candidate \<Rightarrow> real" where
  "GetSegmentationCost c = segmentation_cost c"

text \<open>
  The candidates that have been initialized from a polynomial: built by the constructor
  from a polynomial or by \<open>Initialize\<close> on any candidate, and then changed by any of the
  operations of the class that write a member: the twelve setters, and the assignment from
  a candidate that is itself initialized. (\<open>Initialize\<close> on an initialized candidate is
  covered by its own rule.)
\<close>

inductive initialized :: "Candidate \<Rightarrow> bool" where
  by_constructor: "initialized (Candidate_poly storage p)"
| by_Initialize: "initialized (Initialize c p)"
| by_assign: "initialized c \<Longrightarrow> initialized (assign this c)"
| by_SetOutOfBounds: "initialized c \<Longrightarrow> initialized (SetOutOfBounds c oob)"
| by_SetHitsObstacle: "initialized c \<Longrightarrow> initialized (SetHitsObstacle c ho)"
| by_SetCost: "initialized c \<Longrightarrow> initialized (SetCost c x)"
| by_SetRank: "initialized c \<Longrightarrow> initialized (SetRank c r)"
| by_SetMaxCurvature: "initialized c \<Longrightarrow> initialized (SetMaxCurvature c x)"
| by_SetComfortability: "initialized c \<Longrightarrow> initialized (SetComfortability c x)"
| by_SetStaticSafety: "initialized c \<Longrightarrow> initialized (SetStaticSafety c x)"
| by_SetDynamicSafety: "initialized c \<Longrightarrow> initialized (SetDynamicSafety c x)"
| by_SetRhoCost: "initialized c \<Longrightarrow> initialized (SetRhoCost c x)"
| by_SetMaxLength: "initialized c \<Longrightarrow> initialized (SetMaxLength c x)"
| by_SetS0: "initialized c \<Longrightarrow> initialized (SetS0 c x)"
| by_SetSegmentationCost: "initialized c \<Longrightarrow> initialized (SetSegmentationCost c x)"

text \<open>
  The default values that \<open>Initialize\<close> assigns, read through the getters.
\<close>

definition has_defaults :: "Candidate \<Rightarrow> bool" where
  "has_defaults c \<longleftrightarrow>
     IsOutOfBounds c = False \<and> HitsObstacle c = False \<and> GetRank c = - 1
     \<and> GetMaxCurvature c = 0 \<and> GetMaxLength c = 100 \<and> GetS0 c = 0"

text \<open>
  The storage of an object of static storage duration before its constructor runs: every
  scalar member is zero.
\<close>

definition zero_storage :: Candidate where
  "zero_storage =
     \<lparr> curve = Polynomial [], first_deriv = Polynomial [], second_deriv = Polynomial [],
       out_of_bounds = False, hits_obstacle = False, cost = 0, comfortability = 0,
       static_safety = 0, segmentation_cost = 0, dynamic_safety = 0, rho_final = 0,
       max_curvature = 0, max_length = 0, s0 = 0, rank = 0 \<rparr>"

section \<open>Auxiliary facts about the controller\<close>

text \<open>
  The state a call leaves behind, for every \<open>dt\<close>.
\<close>

lemma GetControlVariable_state:
  "snd (GetControlVariable c measured_value dt) =
    (let error = setpoint c - measured_value;
         crossing = (overshoot_limiter c \<and> error * previous_error c < 0)
     in c\<lparr>previous_error := error,
          integral := (if crossing then 0 else integral c) + error * dt,
          crossed_setpoint := (crossed_setpoint c \<or> crossing)\<rparr>)"
  by (simp add: GetControlVariable_def Let_def)

lemma run_Cons:
  "run c ((measured_value, dt) # calls) =
     (fst (GetControlVariable c measured_value dt)
        # fst (run (snd (GetControlVariable c measured_value dt)) calls),
      snd (run (snd (GetControlVariable c measured_value dt)) calls))"
  by (simp add: Let_def split: prod.splits)

lemma run_append:
  "run c (calls @ later) =
     (fst (run c calls) @ fst (run (snd (run c calls)) later), snd (run (snd (run c calls)) later))"
  by (induction calls arbitrary: c) (auto simp add: run_Cons simp del: run.simps(2))

lemma crossed_setpoint_step:
  "crossed_setpoint c \<Longrightarrow> crossed_setpoint (snd (GetControlVariable c measured_value dt))"
  by (simp add: GetControlVariable_state Let_def)

lemma crossed_setpoint_run:
  "crossed_setpoint c \<Longrightarrow> crossed_setpoint (snd (run c calls))"
proof (induction calls arbitrary: c)
  case Nil
  then show ?case by simp
next
  case (Cons call calls)
  obtain m dt where call: "call = (m, dt)" by (cases call)
  have "crossed_setpoint (snd (GetControlVariable c m dt))"
    using Cons.prems by (rule crossed_setpoint_step)
  then have "crossed_setpoint (snd (run (snd (GetControlVariable c m dt)) calls))"
    by (rule Cons.IH)
  then show ?case
    by (simp add: call run_Cons del: run.simps(2))
qed

text \<open>
  Without a crossing, and before the first one, a call does not read \<open>ki\<close>: the
  controller with another \<open>ki\<close> returns the same output and reaches the same state up to
  \<open>ki\<close>, and the limiter stays armed.
\<close>

lemma no_crossing_step:
  assumes "overshoot_limiter c" and "\<not> crossed_setpoint c"
    and "\<not> (setpoint c - measured_value) * previous_error c < 0"
  shows "GetControlVariable (c\<lparr>ki := k\<rparr>) measured_value dt =
           (fst (GetControlVariable c measured_value dt),
            (snd (GetControlVariable c measured_value dt))\<lparr>ki := k\<rparr>)"
    and "overshoot_limiter (snd (GetControlVariable c measured_value dt))"
    and "\<not> crossed_setpoint (snd (GetControlVariable c measured_value dt))"
  using assms by (simp_all add: GetControlVariable_def Let_def)

lemma no_crossing_run:
  assumes "overshoot_limiter c" and "\<not> crossed_setpoint c" and "no_crossing c calls"
  shows "fst (run (c\<lparr>ki := k\<rparr>) calls) = fst (run c calls)
         \<and> \<not> crossed_setpoint (snd (run c calls))"
  using assms
proof (induction calls arbitrary: c)
  case Nil
  then show ?case by simp
next
  case (Cons call calls)
  obtain m dt where call: "call = (m, dt)" by (cases call)
  let ?c' = "snd (GetControlVariable c m dt)"
  from Cons.prems(3) have quiet: "\<not> (setpoint c - m) * previous_error c < 0"
    and rest: "no_crossing ?c' calls"
    by (simp_all add: call)
  note step = no_crossing_step [OF Cons.prems(1) Cons.prems(2) quiet]
  have IH: "fst (run (?c'\<lparr>ki := k\<rparr>) calls) = fst (run ?c' calls)
            \<and> \<not> crossed_setpoint (snd (run ?c' calls))"
    using step(2) step(3) rest by (rule Cons.IH)
  show ?case
    using IH by (simp add: call run_Cons step(1) del: run.simps(2))
qed

lemma no_crossing_take:
  "no_crossing c calls \<Longrightarrow> no_crossing c (take n calls)"
proof (induction calls arbitrary: c n)
  case Nil
  then show ?case by simp
next
  case (Cons call calls)
  then show ?case by (cases n; cases call) simp_all
qed

section \<open>Auxiliary facts about binary64 arithmetic\<close>

declare expo_between.simps [simp del]









lemma ulp_positive: "0 < ulp a"
  by (simp add: ulp_def)




lemma d_div_by_zero: "is_zero b \<Longrightarrow> non_finite (d_div a b)"
  by (cases a; cases b) (simp_all add: d_div_def)

lemma d_mul_non_finite: "non_finite b \<Longrightarrow> non_finite (d_mul a b)"
  by (cases a; cases b) (simp_all add: d_mul_def)

lemma d_add_non_finite: "non_finite b \<Longrightarrow> non_finite (d_add a b)"
  by (cases a; cases b) (simp_all add: d_add_def)

text \<open>
  The call in closed form.
\<close>

lemma GetControlVariable_b64_closed:
  "GetControlVariable_b64 c measured_value dt =
    (let error = d_sub (setpoint_d c) measured_value;
         crossing = (overshoot_limiter_d c \<and> d_lt (d_mul error (previous_error_d c)) (Fin 0));
         crossed = (crossed_setpoint_d c \<or> crossing);
         ki_eff = (if overshoot_limiter_d c \<and> \<not> crossed then Fin 0 else ki_d c);
         integral' = d_add (if crossing then Fin 0 else integral_d c) (d_mul error dt);
         derivative = d_div (d_sub error (previous_error_d c)) dt
     in (d_add (d_add (d_mul (kp_d c) error) (d_mul ki_eff integral'))
               (d_mul (kd_d c) derivative),
         c\<lparr>previous_error_d := error, integral_d := integral', crossed_setpoint_d := crossed\<rparr>))"
  by (simp add: GetControlVariable_b64_def Let_def)

text \<open>
  Evaluation of the operations on given numbers, and the operations that the examples
  need.
\<close>

lemmas b64_eval =
  d_add_def d_sub_def d_mul_def d_div_def d_lt_def round64_def ulp_def round_even_def
  expo_def expo_between.simps Let_def

lemma example_operations:
  "d_sub (Fin 0) (Fin (- 3)) = Fin 3"
  "d_mul (Fin 3) (Fin (- 1)) = Fin (- 3)"
  "d_mul (Fin 3) (Fin (1 / 2)) = Fin (3 / 2)"
  "d_mul (Fin 3) (Fin (- (1 / 2))) = Fin (- (3 / 2))"
  "d_mul (Fin 3) (Fin 0) = Fin 0"
  "d_add (Fin 0) (Fin (3 / 2)) = Fin (3 / 2)"
  "d_add (Fin 0) (Fin (- (3 / 2))) = Fin (- (3 / 2))"
  "d_add (Fin 0) (Fin 0) = Fin 0"
  "d_sub (Fin 3) (Fin (- 1)) = Fin 4"
  "d_div (Fin 4) (Fin (1 / 2)) = Fin 8"
  "d_div (Fin 4) (Fin (- (1 / 2))) = Fin (- 8)"
  "d_div (Fin 4) (Fin 0) = PlusInf"
  "d_mul (Fin (1 / 2)) (Fin 3) = Fin (3 / 2)"
  "d_mul (Fin 2) (Fin (3 / 2)) = Fin 3"
  "d_mul (Fin 2) (Fin (- (3 / 2))) = Fin (- 3)"
  "d_mul (Fin 2) (Fin 0) = Fin 0"
  "d_add (Fin (3 / 2)) (Fin 3) = Fin (9 / 2)"
  "d_add (Fin (3 / 2)) (Fin (- 3)) = Fin (- (3 / 2))"
  "d_add (Fin (3 / 2)) (Fin 0) = Fin (3 / 2)"
  "d_mul (Fin (1 / 4)) (Fin 8) = Fin 2"
  "d_mul (Fin (1 / 4)) (Fin (- 8)) = Fin (- 2)"
  "d_mul (Fin (1 / 4)) PlusInf = PlusInf"
  "d_add (Fin (9 / 2)) (Fin 2) = Fin (13 / 2)"
  "d_add (Fin (- (3 / 2))) (Fin (- 2)) = Fin (- (7 / 2))"
  "d_add (Fin (3 / 2)) PlusInf = PlusInf"
  by (simp_all add: b64_eval split del: if_split)

text \<open>
  Two calls at the edges of the binary64 range. Errors of \<open>-2 ^ -600\<close> and
  \<open>2 ^ -600\<close> have a product that underflows to the negative zero, which is not less than
  zero: the integral is not reset and the flag stays false. A quotient by
  \<open>dt = 2 ^ -1030\<close> overflows: the returned output is an infinity.
\<close>

lemma GetControlVariable_b64_underflow:
  "GetControlVariable_b64
     (example_controller\<lparr>previous_error_d := Fin (1 / 2 ^ 600)\<rparr>) (Fin (1 / 2 ^ 600)) (Fin 1)
   = (Fin (- (1 / 2 ^ 600)),
      example_controller\<lparr>previous_error_d := Fin (- (1 / 2 ^ 600))\<rparr>)"
proof -
  define t :: real where "t = 1 / 2 ^ 600"
  have ops:
    "d_sub (Fin 0) (Fin t) = Fin (- t)"
    "d_mul (Fin (- t)) (Fin t) = NegZero"
    "d_mul (Fin (- t)) (Fin 1) = Fin (- t)"
    "d_add (Fin 7) (Fin (- t)) = Fin 7"
    "d_sub (Fin (- t)) (Fin t) = Fin (- (2 * t))"
    "d_div (Fin (- (2 * t))) (Fin 1) = Fin (- (2 * t))"
    "d_mul (Fin (1 / 2)) (Fin (- t)) = Fin (- (t / 2))"
    "d_mul (Fin 0) (Fin 7) = Fin 0"
    "d_add (Fin (- (t / 2))) (Fin 0) = Fin (- (t / 2))"
    "d_mul (Fin (1 / 4)) (Fin (- (2 * t))) = Fin (- (t / 2))"
    "d_add (Fin (- (t / 2))) (Fin (- (t / 2))) = Fin (- t)"
    unfolding t_def by (simp_all add: b64_eval split del: if_split)
  show ?thesis
    unfolding t_def [symmetric]
    by (simp add: GetControlVariable_b64_def example_controller_def Let_def ops d_lt_def)
qed

lemma GetControlVariable_b64_overflow:
  "GetControlVariable_b64
     (example_controller\<lparr>previous_error_d := Fin 0, integral_d := Fin 0\<rparr>)
     (Fin (- 1)) (Fin (1 / 2 ^ 1030))
   = (PlusInf,
      example_controller\<lparr>previous_error_d := Fin 1, integral_d := Fin (1 / 2 ^ 1030)\<rparr>)"
proof -
  define t :: real where "t = 1 / 2 ^ 1030"
  have ops:
    "d_sub (Fin 0) (Fin (- 1)) = Fin 1"
    "d_mul (Fin 1) (Fin 0) = Fin 0"
    "d_mul (Fin 1) (Fin t) = Fin t"
    "d_add (Fin 0) (Fin t) = Fin t"
    "d_sub (Fin 1) (Fin 0) = Fin 1"
    "d_div (Fin 1) (Fin t) = PlusInf"
    "d_mul (Fin (1 / 2)) (Fin 1) = Fin (1 / 2)"
    "d_mul (Fin 0) (Fin t) = Fin 0"
    "d_add (Fin (1 / 2)) (Fin 0) = Fin (1 / 2)"
    "d_mul (Fin (1 / 4)) PlusInf = PlusInf"
    "d_add (Fin (1 / 2)) PlusInf = PlusInf"
    unfolding t_def by (simp_all add: b64_eval split del: if_split)
  show ?thesis
    unfolding t_def [symmetric]
    by (simp add: GetControlVariable_b64_def example_controller_def Let_def ops d_lt_def)
qed

text \<open>
  The constructor's literals as binary64 values, and two calls of the freshly constructed
  controller. With the setpoint 10, the measurement 0 and \<open>dt = 1\<close> the first call
  returns 3.5. With the measurement 1 and \<open>dt = -1\<close> the call returns -0.25: the
  rounding of the two literals cancels in the last sum.
\<close>

lemma PidController_b64_new_values:
  "PidController_b64_new =
     \<lparr> kp_d = Fin (5404319552844595 / 18014398509481984), ki_d = Fin 0,
       kd_d = Fin (3602879701896397 / 72057594037927936),
       setpoint_d = Fin 0, previous_error_d = Fin 0, integral_d = Fin 0,
       overshoot_limiter_d = True, crossed_setpoint_d = False \<rparr>"
  by (simp add: PidController_b64_new_def b64_eval split del: if_split)

lemma GetControlVariable_b64_first_call:
  "GetControlVariable_b64 (PidController_b64_new\<lparr>setpoint_d := Fin 10\<rparr>) (Fin 0) (Fin 1)
   = (Fin (7 / 2),
      PidController_b64_new\<lparr>setpoint_d := Fin 10, previous_error_d := Fin 10,
        integral_d := Fin 10\<rparr>)"
proof -
  have ops:
    "d_sub (Fin 10) (Fin 0) = Fin 10"
    "d_mul (Fin 10) (Fin 0) = Fin 0"
    "d_mul (Fin 10) (Fin 1) = Fin 10"
    "d_add (Fin 0) (Fin 10) = Fin 10"
    "d_div (Fin 10) (Fin 1) = Fin 10"
    "d_mul (Fin (5404319552844595 / 18014398509481984)) (Fin 10) = Fin 3"
    "d_mul (Fin 0) (Fin 10) = Fin 0"
    "d_add (Fin 3) (Fin 0) = Fin 3"
    "d_mul (Fin (3602879701896397 / 72057594037927936)) (Fin 10) = Fin (1 / 2)"
    "d_add (Fin 3) (Fin (1 / 2)) = Fin (7 / 2)"
    by (simp_all add: b64_eval split del: if_split)
  show ?thesis
    by (simp add: GetControlVariable_b64_def PidController_b64_new_values Let_def ops d_lt_def)
qed

lemma GetControlVariable_b64_negative_dt:
  "GetControlVariable_b64 PidController_b64_new (Fin 1) (Fin (- 1))
   = (Fin (- (1 / 4)),
      PidController_b64_new\<lparr>previous_error_d := Fin (- 1), integral_d := Fin 1\<rparr>)"
proof -
  have ops:
    "d_sub (Fin 0) (Fin 1) = Fin (- 1)"
    "d_mul (Fin (- 1)) (Fin 0) = NegZero"
    "d_mul (Fin (- 1)) (Fin (- 1)) = Fin 1"
    "d_add (Fin 0) (Fin 1) = Fin 1"
    "d_sub (Fin (- 1)) (Fin 0) = Fin (- 1)"
    "d_div (Fin (- 1)) (Fin (- 1)) = Fin 1"
    "d_mul (Fin (5404319552844595 / 18014398509481984)) (Fin (- 1))
       = Fin (- (5404319552844595 / 18014398509481984))"
    "d_mul (Fin 0) (Fin 1) = Fin 0"
    "d_add (Fin (- (5404319552844595 / 18014398509481984))) (Fin 0)
       = Fin (- (5404319552844595 / 18014398509481984))"
    "d_mul (Fin (3602879701896397 / 72057594037927936)) (Fin 1)
       = Fin (3602879701896397 / 72057594037927936)"
    "d_add (Fin (- (5404319552844595 / 18014398509481984)))
           (Fin (3602879701896397 / 72057594037927936)) = Fin (- (1 / 4))"
    by (simp_all add: b64_eval split del: if_split)
  show ?thesis
    by (simp add: GetControlVariable_b64_def PidController_b64_new_values Let_def ops d_lt_def)
qed

section \<open>Auxiliary facts about polynomials and candidates\<close>

lemma eval_scale_Suc:
  "eval_coeffs (scale_by_power (Suc n) as) s = eval_coeffs as s + eval_coeffs (scale_by_power n as) s"
  by (induction as arbitrary: n) (simp_all add: algebra_simps)

lemma eval_coeffs_has_derivative:
  "((\<lambda>x. eval_coeffs as x) has_real_derivative eval_coeffs (scale_by_power 1 (tl as)) s) (at s)"
proof (induction as)
  case Nil
  show ?case by simp
next
  case (Cons a as)
  let ?d = "eval_coeffs (scale_by_power 1 (tl as)) s"
  have ident: "((\<lambda>x. x) has_real_derivative 1) (at s)"
    by (rule DERIV_ident)
  have const: "((\<lambda>x. a) has_real_derivative 0) (at s)"
    by (rule DERIV_const)
  have "((\<lambda>x. x * eval_coeffs as x) has_real_derivative 1 * eval_coeffs as s + ?d * s) (at s)"
    by (rule DERIV_mult [OF ident Cons.IH])
  then have "((\<lambda>x. a + x * eval_coeffs as x) has_real_derivative
               0 + (1 * eval_coeffs as s + ?d * s)) (at s)"
    by (rule DERIV_add [OF const])
  moreover have "eval_coeffs (scale_by_power 1 as) s = 0 + (1 * eval_coeffs as s + ?d * s)"
    by (cases as) (simp_all add: eval_scale_Suc algebra_simps)
  ultimately show ?case by simp
qed

lemma At_has_derivative:
  "((\<lambda>x. At p x) has_real_derivative At (Derivative p) s) (at s)"
  unfolding At_def Derivative_def Polynomial.sel by (rule eval_coeffs_has_derivative)

lemmas Candidate_setters =
  SetOutOfBounds_def SetHitsObstacle_def SetCost_def SetRank_def SetMaxCurvature_def
  SetComfortability_def SetStaticSafety_def SetDynamicSafety_def SetRhoCost_def
  SetMaxLength_def SetS0_def SetSegmentationCost_def

lemmas Candidate_getters =
  IsOutOfBounds_def HitsObstacle_def GetCost_def GetRank_def GetMaxCurvature_def
  GetComfortability_def GetStaticSafety_def GetDynamicSafety_def GetRhoCost_def
  GetMaxLength_def GetS0_def GetSegmentationCost_def

lemma initialized_derivatives:
  "initialized c \<Longrightarrow>
     first_deriv c = Derivative (curve c) \<and> second_deriv c = Derivative (first_deriv c)"
  by (induction rule: initialized.induct)
    (simp_all add: Candidate_poly_def Initialize_def assign_def Candidate_setters)

lemma assign_copies_other_fields:
  "assign a b = b\<lparr>rho_final := rho_final a\<rparr>"
  by (simp add: assign_def)

section \<open>The controller\<close>

text \<open>
  C1. The PID update law, in the arithmetic of the code. For every controller state and
  every call with \<open>dt > 0\<close>: with \<open>error = setpoint - measured_value\<close>, the integral
  is first reset to 0 and crossed_setpoint set when overshoot limiting is enabled and
  \<open>error * previous_error < 0\<close>; the effective integral gain is 0 exactly when overshoot
  limiting is enabled and crossed_setpoint is still false after that step, and \<open>ki\<close>
  otherwise; the new stored integral is the integral after the reset step plus
  \<open>error * dt\<close>; the returned output is
  \<open>kp * error + ki_eff * integral' + kd * ((error - previous_error) / dt)\<close>; and
  previous_error becomes \<open>error\<close>. The gains, the setpoint and the limiter switch are
  left as they were. Every difference, product, quotient, sum and comparison is the
  binary64 one.
\<close>

theorem pid_update_law:
  assumes "d_lt (Fin 0) dt"
  shows "let error = d_sub (setpoint_d c) measured_value;
             crossing = (overshoot_limiter_d c \<and> d_lt (d_mul error (previous_error_d c)) (Fin 0));
             integral0 = (if crossing then Fin 0 else integral_d c);
             crossed0 = (if crossing then True else crossed_setpoint_d c);
             ki_eff = (if overshoot_limiter_d c \<and> \<not> crossed0 then Fin 0 else ki_d c);
             integral' = d_add integral0 (d_mul error dt);
             derivative = d_div (d_sub error (previous_error_d c)) dt;
             (output, c') = GetControlVariable_b64 c measured_value dt
         in output = d_add (d_add (d_mul (kp_d c) error) (d_mul ki_eff integral'))
                           (d_mul (kd_d c) derivative)
            \<and> integral_d c' = integral'
            \<and> previous_error_d c' = error
            \<and> crossed_setpoint_d c' = crossed0
            \<and> kp_d c' = kp_d c \<and> ki_d c' = ki_d c \<and> kd_d c' = kd_d c
            \<and> setpoint_d c' = setpoint_d c \<and> overshoot_limiter_d c' = overshoot_limiter_d c"
  by (auto simp add: GetControlVariable_b64_closed Let_def)

theorem pid_update_law_witness:
  "d_lt (Fin 0) (Fin (1 / 2))
   \<and> GetControlVariable_b64 example_controller (Fin (- 3)) (Fin (1 / 2))
     = (Fin (13 / 2),
        example_controller\<lparr>previous_error_d := Fin 3, integral_d := Fin (3 / 2),
          crossed_setpoint_d := True\<rparr>)"
  using pid_update_law [of "Fin (1 / 2)" example_controller "Fin (- 3)"]
  by (simp add: example_controller_def example_operations d_lt_def Let_def split: prod.splits)



text \<open>
  C3. Before the first crossing the output does not depend on \<open>ki\<close>. Two controllers
  that differ only in \<open>ki\<close>, both with overshoot limiting enabled and crossed_setpoint
  false, return the same outputs on the same sequence of calls, as long as no call of the
  sequence is a sign crossing.
\<close>

theorem pid_pre_crossing_ki_independent:
  assumes "overshoot_limiter c" and "\<not> crossed_setpoint c" and "no_crossing c calls"
  shows "fst (run (c\<lparr>ki := k1\<rparr>) calls) = fst (run (c\<lparr>ki := k2\<rparr>) calls)"
proof -
  have "fst (run (c\<lparr>ki := k1\<rparr>) calls) = fst (run c calls)"
    using no_crossing_run [OF assms] by simp
  also have "\<dots> = fst (run (c\<lparr>ki := k2\<rparr>) calls)"
    using no_crossing_run [OF assms] by simp
  finally show ?thesis .
qed

theorem pid_pre_crossing_ki_independent_witness:
  "overshoot_limiter (PidController_new\<lparr>setpoint := 10\<rparr>)
   \<and> \<not> crossed_setpoint (PidController_new\<lparr>setpoint := 10\<rparr>)
   \<and> no_crossing (PidController_new\<lparr>setpoint := 10\<rparr>) [(0, 1), (4, 1), (10, 1)]
   \<and> fst (run (PidController_new\<lparr>setpoint := 10, ki := 2\<rparr>) [(0, 1), (4, 1), (10, 1)])
       = fst (run (PidController_new\<lparr>setpoint := 10, ki := 5\<rparr>) [(0, 1), (4, 1), (10, 1)])"
  using pid_pre_crossing_ki_independent
    [of "PidController_new\<lparr>setpoint := 10\<rparr>" "[(0, 1), (4, 1), (10, 1)]" 2 5]
  by (simp add: PidController_new_def GetControlVariable_def Let_def)

text \<open>
  C4, as the code has it. A call with \<open>dt < 0\<close> or \<open>dt = 0\<close> is not rejected:
  \<open>GetControlVariable\<close> has no failing branch, it runs the same statements as for a
  positive \<open>dt\<close>. The returned output is the value of the same expression in binary64
  arithmetic, and integral, previous_error and crossed_setpoint are updated by the same
  rule. For \<open>dt = 0\<close> the quotient of the derivative term is a division by zero, and the
  returned output is an infinity or a NaN.
\<close>

theorem nonpositive_dt_not_rejected:
  assumes "d_lt dt (Fin 0) \<or> is_zero dt"
  shows "let error = d_sub (setpoint_d c) measured_value;
             crossing = (overshoot_limiter_d c \<and> d_lt (d_mul error (previous_error_d c)) (Fin 0));
             integral0 = (if crossing then Fin 0 else integral_d c);
             crossed0 = (if crossing then True else crossed_setpoint_d c);
             ki_eff = (if overshoot_limiter_d c \<and> \<not> crossed0 then Fin 0 else ki_d c);
             integral' = d_add integral0 (d_mul error dt);
             derivative = d_div (d_sub error (previous_error_d c)) dt;
             (output, c') = GetControlVariable_b64 c measured_value dt
         in output = d_add (d_add (d_mul (kp_d c) error) (d_mul ki_eff integral'))
                           (d_mul (kd_d c) derivative)
            \<and> (is_zero dt \<longrightarrow> non_finite output)
            \<and> integral_d c' = integral'
            \<and> previous_error_d c' = error
            \<and> crossed_setpoint_d c' = crossed0
            \<and> kp_d c' = kp_d c \<and> ki_d c' = ki_d c \<and> kd_d c' = kd_d c
            \<and> setpoint_d c' = setpoint_d c \<and> overshoot_limiter_d c' = overshoot_limiter_d c"
  by (auto simp add: GetControlVariable_b64_closed Let_def
      d_div_by_zero d_mul_non_finite d_add_non_finite)

theorem nonpositive_dt_not_rejected_witness:
  "(d_lt (Fin 0) (Fin 0) \<or> is_zero (Fin 0))
   \<and> GetControlVariable_b64 example_controller (Fin (- 3)) (Fin 0)
     = (PlusInf,
        example_controller\<lparr>previous_error_d := Fin 3, integral_d := Fin 0,
          crossed_setpoint_d := True\<rparr>)
   \<and> non_finite PlusInf
   \<and> (d_lt (Fin (- (1 / 2))) (Fin 0) \<or> is_zero (Fin (- (1 / 2))))
   \<and> GetControlVariable_b64 example_controller (Fin (- 3)) (Fin (- (1 / 2)))
     = (Fin (- (7 / 2)),
        example_controller\<lparr>previous_error_d := Fin 3, integral_d := Fin (- (3 / 2)),
          crossed_setpoint_d := True\<rparr>)"
  using nonpositive_dt_not_rejected [of "Fin 0" example_controller "Fin (- 3)"]
    nonpositive_dt_not_rejected [of "Fin (- (1 / 2))" example_controller "Fin (- 3)"]
  by (simp add: example_controller_def example_operations d_lt_def Let_def split: prod.splits)

text \<open>
  C4, as it is stated (a call with \<open>dt = 0\<close> or \<open>dt < 0\<close> is rejected and returns no
  control output), fails: the freshly constructed controller, called with the measurement
  1 and \<open>dt = -1\<close>, returns the output \<open>-0.25\<close> and is updated.
\<close>

theorem negative_dt_returns_output:
  "GetControlVariable PidController_new 1 (- 1)
     = (Num (- 1 / 4), PidController_new\<lparr>previous_error := - 1, integral := 1\<rparr>)"
  by (simp add: GetControlVariable_def PidController_new_def Let_def div_d_def)

text \<open>
  C8. A default-constructed controller has the gains kp = 0.3, ki = 0.0, kd = 0.05,
  overshoot limiting enabled, setpoint 0, crossed_setpoint false, and integral and
  previous_error both zero.
\<close>

theorem pid_initial_state:
  "kp PidController_new = 0.3 \<and> ki PidController_new = 0.0 \<and> kd PidController_new = 0.05
   \<and> overshoot_limiter PidController_new \<and> setpoint PidController_new = 0
   \<and> \<not> crossed_setpoint PidController_new
   \<and> integral PidController_new = 0 \<and> previous_error PidController_new = 0"
  by (simp add: PidController_new_def)

text \<open>
  C9. crossed_setpoint is monotone. Once it is true after some calls of
  \<open>GetControlVariable\<close>, it is true after every longer sequence of calls and after every
  single further call: no call sets it back to false.
\<close>

theorem crossed_setpoint_monotone:
  assumes "crossed_setpoint (snd (run c calls))"
  shows "crossed_setpoint (snd (run c (calls @ later)))
         \<and> crossed_setpoint (snd (GetControlVariable (snd (run c calls)) measured_value dt))"
  using assms by (simp add: run_append crossed_setpoint_run crossed_setpoint_step)

theorem crossed_setpoint_monotone_witness:
  "crossed_setpoint (snd (run (PidController_new\<lparr>previous_error := - 1\<rparr>) [(- 3, 1)]))
   \<and> crossed_setpoint (snd (run (PidController_new\<lparr>previous_error := - 1\<rparr>)
        ([(- 3, 1)] @ [(0, 1), (5, 1)])))
   \<and> crossed_setpoint (snd (GetControlVariable
        (snd (run (PidController_new\<lparr>previous_error := - 1\<rparr>) [(- 3, 1)])) 5 1))"
  using crossed_setpoint_monotone
    [of "PidController_new\<lparr>previous_error := - 1\<rparr>" "[(- 3, 1)]" "[(0, 1), (5, 1)]" 5 1]
  by (simp add: PidController_new_def GetControlVariable_def Let_def)

text \<open>
  C10. Only a strict sign change triggers the reset. A call in which
  \<open>error * previous_error < 0\<close> does not hold adds \<open>error * dt\<close> to the integral as it
  was and leaves crossed_setpoint as it was. If the error of a call is exactly zero, neither
  that call nor the next one resets the integral or changes crossed_setpoint. And with
  overshoot limiting enabled and crossed_setpoint false, a run none of whose calls is a
  strict sign change keeps crossed_setpoint false after every prefix of the run, and its
  outputs are those of the same controller with \<open>ki = 0\<close>: integral action is never
  enabled.
\<close>

theorem strict_crossing_required:
  "(\<not> (setpoint c - measured_value) * previous_error c < 0 \<longrightarrow>
      integral (snd (GetControlVariable c measured_value dt))
        = integral c + (setpoint c - measured_value) * dt
      \<and> crossed_setpoint (snd (GetControlVariable c measured_value dt)) = crossed_setpoint c)
   \<and> (measured_value = setpoint c \<longrightarrow>
      (let c' = snd (GetControlVariable c measured_value dt);
           c'' = snd (GetControlVariable c' next_value next_dt)
       in integral c' = integral c \<and> crossed_setpoint c' = crossed_setpoint c
          \<and> integral c'' = integral c' + (setpoint c' - next_value) * next_dt
          \<and> crossed_setpoint c'' = crossed_setpoint c'))
   \<and> (overshoot_limiter c \<and> \<not> crossed_setpoint c \<and> no_crossing c calls \<longrightarrow>
      (\<forall>n. \<not> crossed_setpoint (snd (run c (take n calls))))
      \<and> fst (run c calls) = fst (run (c\<lparr>ki := 0\<rparr>) calls))"
proof (intro conjI impI allI)
  assume "\<not> (setpoint c - measured_value) * previous_error c < 0"
  then show "integral (snd (GetControlVariable c measured_value dt))
        = integral c + (setpoint c - measured_value) * dt"
    and "crossed_setpoint (snd (GetControlVariable c measured_value dt)) = crossed_setpoint c"
    by (simp_all add: GetControlVariable_state Let_def)
next
  assume "measured_value = setpoint c"
  then show "let c' = snd (GetControlVariable c measured_value dt);
           c'' = snd (GetControlVariable c' next_value next_dt)
       in integral c' = integral c \<and> crossed_setpoint c' = crossed_setpoint c
          \<and> integral c'' = integral c' + (setpoint c' - next_value) * next_dt
          \<and> crossed_setpoint c'' = crossed_setpoint c'"
    by (simp add: GetControlVariable_state Let_def)
next
  fix n
  assume h: "overshoot_limiter c \<and> \<not> crossed_setpoint c \<and> no_crossing c calls"
  then have "no_crossing c (take n calls)" by (simp add: no_crossing_take)
  with h show "\<not> crossed_setpoint (snd (run c (take n calls)))"
    using no_crossing_run [of c "take n calls"] by simp
next
  assume h: "overshoot_limiter c \<and> \<not> crossed_setpoint c \<and> no_crossing c calls"
  then show "fst (run c calls) = fst (run (c\<lparr>ki := 0\<rparr>) calls)"
    using no_crossing_run [of c calls 0] by simp
qed

theorem strict_crossing_required_witness:
  "\<not> (setpoint (PidController_new\<lparr>ki := 2\<rparr>) - 0) * previous_error (PidController_new\<lparr>ki := 2\<rparr>) < 0
   \<and> (0::real) = setpoint (PidController_new\<lparr>ki := 2\<rparr>)
   \<and> overshoot_limiter (PidController_new\<lparr>ki := 2\<rparr>)
   \<and> \<not> crossed_setpoint (PidController_new\<lparr>ki := 2\<rparr>)
   \<and> no_crossing (PidController_new\<lparr>ki := 2\<rparr>) [(- 5, 1), (0, 1), (5, 1)]
   \<and> \<not> crossed_setpoint (snd (run (PidController_new\<lparr>ki := 2\<rparr>) (take 3 [(- 5, 1), (0, 1), (5, 1)])))
   \<and> fst (run (PidController_new\<lparr>ki := 2\<rparr>) [(- 5, 1), (0, 1), (5, 1)])
       = fst (run (PidController_new\<lparr>ki := 2, ki := 0\<rparr>) [(- 5, 1), (0, 1), (5, 1)])
   \<and> integral (snd (GetControlVariable (PidController_new\<lparr>ki := 2\<rparr>) 0 1)) = 0
   \<and> \<not> crossed_setpoint (snd (GetControlVariable
          (snd (GetControlVariable (PidController_new\<lparr>ki := 2\<rparr>) 0 1)) 5 1))"
  using strict_crossing_required
    [of "PidController_new\<lparr>ki := 2\<rparr>" 0 1 5 1 "[(- 5, 1), (0, 1), (5, 1)]"]
  by (simp add: PidController_new_def GetControlVariable_def Let_def)

section \<open>The candidate\<close>

text \<open>
  C5, at the input where it fails. The assignment operator copies fourteen members and
  leaves out \<open>rho_final_\<close>: after \<open>a = b\<close>, with the rho cost 1 set on \<open>a\<close> and 2 on
  \<open>b\<close>, \<open>GetRhoCost\<close> of \<open>a\<close> still returns 1, not the 2 of \<open>b\<close>.
\<close>

theorem assign_keeps_old_rho_cost:
  "GetRhoCost (assign (SetRhoCost (Candidate_poly zero_storage (Polynomial [0, 0, 0, 0])) 1)
                      (SetRhoCost (Candidate_poly zero_storage (Polynomial [0, 0, 0, 0])) 2)) = 1
   \<and> GetRhoCost (SetRhoCost (Candidate_poly zero_storage (Polynomial [0, 0, 0, 0])) 2) = 2"
  by (simp add: GetRhoCost_def SetRhoCost_def assign_def)

text \<open>
  C6, as the code has it. Every candidate constructed from a polynomial, and every
  candidate after \<open>Initialize\<close>, has out_of_bounds and hits_obstacle false, rank -1,
  max_curvature 0, max_length 100 and s0 0.
\<close>

theorem candidate_defaults_after_Initialize:
  "has_defaults (Candidate_poly storage p) \<and> has_defaults (Initialize c p)"
  by (simp add: has_defaults_def Candidate_poly_def Initialize_def Candidate_getters)

text \<open>
  C6, as it is stated, also promises these values for the empty constructor, and fails
  there: \<open>Candidate()\<close> assigns no member, and an object of static storage duration comes
  out of it with rank 0 and max_length 0.
\<close>

theorem candidate_empty_constructor_no_defaults:
  "\<not> has_defaults (Candidate_empty zero_storage)
   \<and> GetRank (Candidate_empty zero_storage) = 0
   \<and> GetMaxLength (Candidate_empty zero_storage) = 0"
  by (simp add: has_defaults_def Candidate_empty_def zero_storage_def Candidate_getters)

text \<open>
  C7. The derivative invariant. For every candidate initialized from a polynomial,
  whatever setters, assignments and further calls of \<open>Initialize\<close> followed,
  \<open>DerivativeAt(s)\<close> is the derivative of the curve at \<open>s\<close> and
  \<open>SecondDerivativeAt(s)\<close> is the derivative of \<open>DerivativeAt\<close> at \<open>s\<close>, for every
  \<open>s\<close>; the two stored derivative polynomials are always those that
  \<open>Derivative\<close> computes from the curve.
\<close>

theorem candidate_derivative_invariant:
  assumes "initialized c"
  shows "((\<lambda>x. Candidate_At c x) has_real_derivative DerivativeAt c s) (at s)
         \<and> ((\<lambda>x. DerivativeAt c x) has_real_derivative SecondDerivativeAt c s) (at s)
         \<and> first_deriv c = Derivative (curve c)
         \<and> second_deriv c = Derivative (first_deriv c)"
proof -
  from assms have d: "first_deriv c = Derivative (curve c)"
    "second_deriv c = Derivative (first_deriv c)"
    by (simp_all add: initialized_derivatives)
  have "((\<lambda>x. At (curve c) x) has_real_derivative At (first_deriv c) s) (at s)"
    unfolding d(1) by (rule At_has_derivative)
  moreover have "((\<lambda>x. At (first_deriv c) x) has_real_derivative At (second_deriv c) s) (at s)"
    unfolding d(2) by (rule At_has_derivative)
  ultimately show ?thesis
    using d by (simp add: Candidate_At_def DerivativeAt_def SecondDerivativeAt_def)
qed

theorem candidate_derivative_invariant_witness:
  "initialized (SetRhoCost (assign (Candidate_empty zero_storage)
       (Candidate_poly zero_storage (Polynomial [1, 2, 3, 4]))) 5)
   \<and> ((\<lambda>x. Candidate_At (SetRhoCost (assign (Candidate_empty zero_storage)
           (Candidate_poly zero_storage (Polynomial [1, 2, 3, 4]))) 5) x)
        has_real_derivative 62) (at 2)
   \<and> ((\<lambda>x. DerivativeAt (SetRhoCost (assign (Candidate_empty zero_storage)
           (Candidate_poly zero_storage (Polynomial [1, 2, 3, 4]))) 5) x)
        has_real_derivative 54) (at 2)
   \<and> first_deriv (SetRhoCost (assign (Candidate_empty zero_storage)
       (Candidate_poly zero_storage (Polynomial [1, 2, 3, 4]))) 5) = Polynomial [2, 6, 12]
   \<and> second_deriv (SetRhoCost (assign (Candidate_empty zero_storage)
       (Candidate_poly zero_storage (Polynomial [1, 2, 3, 4]))) 5) = Polynomial [6, 24]"
proof -
  let ?c = "SetRhoCost (assign (Candidate_empty zero_storage)
       (Candidate_poly zero_storage (Polynomial [1, 2, 3, 4]))) 5"
  have init: "initialized ?c"
    by (intro by_SetRhoCost by_assign by_constructor)
  have d1: "DerivativeAt ?c 2 = 62" and d2: "SecondDerivativeAt ?c 2 = 54"
    and f: "first_deriv ?c = Polynomial [2, 6, 12]"
    and g: "second_deriv ?c = Polynomial [6, 24]"
    by (simp_all add: DerivativeAt_def SecondDerivativeAt_def SetRhoCost_def assign_def
        Candidate_poly_def Initialize_def Derivative_def At_def)
  show ?thesis
    using candidate_derivative_invariant [OF init, of 2] init d1 d2 f g by simp
qed

end
